theory Spec2Isabelle
  imports Main "HOL-Library.Multiset"
begin

section \<open>Data model (src/app/chat/page.tsx, lines 8-31)\<close>

text \<open>
  A message id is \<^verbatim>\<open>number | string\<close>: the database issues numbers, the client issues
  strings of the form \<^verbatim>\<open>temp-...\<close>. Strict equality \<^verbatim>\<open>===\<close> never identifies a number
  with a string, which is equality of this datatype.
\<close>

datatype ident = NumId int | StrId string

record message =
  msg_id :: ident
  content :: string
  created_at :: string
  sender_id :: string
  recipient_id :: "string option"
  group_id :: "int option"

record profile =
  profile_id :: string
  username :: string

record chat_group =
  grp_id :: int
  grp_name :: string
  grp_created_at :: string
  created_by :: string

text \<open>\<^verbatim>\<open>ChatListItem\<close>: the tag \<^verbatim>\<open>type\<close> with its \<^verbatim>\<open>data\<close>, and the list key \<^verbatim>\<open>id\<close>.\<close>

datatype chatListItem = Dm profile string | GroupChat chat_group string

section \<open>Strings and numbers of the platform\<close>

text \<open>
  \<^verbatim>\<open>Number.prototype.toString\<close> on an integer id: decimal digits, with a sign when
  negative.
\<close>

definition digit_char :: "nat \<Rightarrow> char" where
  "digit_char d = ''0123456789'' ! (d mod 10)"

function digits :: "nat \<Rightarrow> string" where
  "digits n = (if n < 10 then [digit_char n] else digits (n div 10) @ [digit_char (n mod 10)])"
  by pat_completeness auto
termination
  by (relation "measure (\<lambda>n. n)") auto

declare digits.simps [simp del]

definition number_toString :: "int \<Rightarrow> string" where
  "number_toString n = (if n < 0 then CHR ''-'' # digits (nat (- n)) else digits (nat n))"

fun toString :: "ident \<Rightarrow> string" where
  "toString (NumId n) = number_toString n"
| "toString (StrId s) = s"

definition startsWith :: "string \<Rightarrow> string \<Rightarrow> bool" where
  "startsWith s p = (take (length p) s = p)"

text \<open>
  \<^verbatim>\<open>String.prototype.trim\<close> strips white space and line terminators from both ends.
  Characters are code units below 256, where these are TAB, LF, VT, FF, CR, SP and NBSP.
\<close>

definition isWhiteSpace :: "char \<Rightarrow> bool" where
  "isWhiteSpace c = (c \<in> set [CHR 0x09, CHR 0x0A, CHR 0x0B, CHR 0x0C, CHR 0x0D, CHR 0x20, CHR 0xA0])"

definition trim :: "string \<Rightarrow> string" where
  "trim s = rev (dropWhile isWhiteSpace (rev (dropWhile isWhiteSpace s)))"

section \<open>Sorting by \<^verbatim>\<open>created_at\<close>\<close>

text \<open>
  Every sort of the page uses the comparator
  \<^verbatim>\<open>(a, b) => new Date(a.created_at).getTime() - new Date(b.created_at).getTime()\<close>.
  The time value of a timestamp string is the platform's; it is the parameter \<open>tm\<close> of the
  model (\<^verbatim>\<open>new Date(s).getTime()\<close> for the timestamps the database and
  \<^verbatim>\<open>toISOString\<close> produce, which always parse). \<^verbatim>\<open>Array.prototype.sort\<close> is stable:
  an element is placed before the first element it does not compare greater than.
\<close>

definition compareCreatedAt :: "(string \<Rightarrow> int) \<Rightarrow> message \<Rightarrow> message \<Rightarrow> int" where
  "compareCreatedAt tm a b = tm (created_at a) - tm (created_at b)"

fun insertBy :: "('a \<Rightarrow> 'a \<Rightarrow> int) \<Rightarrow> 'a \<Rightarrow> 'a list \<Rightarrow> 'a list" where
  "insertBy cmp x [] = [x]"
| "insertBy cmp x (y # ys) = (if cmp x y \<le> 0 then x # y # ys else y # insertBy cmp x ys)"

definition arraySort :: "('a \<Rightarrow> 'a \<Rightarrow> int) \<Rightarrow> 'a list \<Rightarrow> 'a list" where
  "arraySort cmp xs = foldr (insertBy cmp) xs []"

definition sortedByCreatedAt :: "(string \<Rightarrow> int) \<Rightarrow> message list \<Rightarrow> bool" where
  "sortedByCreatedAt tm xs = sorted (map (\<lambda>m. tm (created_at m)) xs)"

section \<open>The realtime callback (lines 108-171)\<close>

definition isForActiveChat :: "profile \<Rightarrow> chatListItem \<Rightarrow> message \<Rightarrow> bool" where
  "isForActiveChat currentUser selectedChat incomingMessage =
     (case selectedChat of
        Dm dmPartner _ \<Rightarrow>
          ((sender_id incomingMessage = profile_id currentUser \<and>
            recipient_id incomingMessage = Some (profile_id dmPartner)) \<or>
           (sender_id incomingMessage = profile_id dmPartner \<and>
            recipient_id incomingMessage = Some (profile_id currentUser))) \<and>
          group_id incomingMessage = None
      | GroupChat g _ \<Rightarrow>
          group_id incomingMessage = Some (grp_id g) \<and> recipient_id incomingMessage = None)"

definition isTemp :: "message \<Rightarrow> bool" where
  "isTemp msg = startsWith (toString (msg_id msg)) ''temp-''"

definition messageExists :: "message list \<Rightarrow> message \<Rightarrow> bool" where
  "messageExists messages newMessage =
     list_ex (\<lambda>msg. msg_id msg = msg_id newMessage \<or>
                   (isTemp msg \<and> content msg = content newMessage \<and>
                    sender_id msg = sender_id newMessage)) messages"

text \<open>
  The \<^verbatim>\<open>prevMessages.map\<close> of lines 148-161, with the flag \<^verbatim>\<open>replaced\<close> that its
  callback sets threaded through the traversal.
\<close>

fun replaceMatching :: "message \<Rightarrow> message list \<Rightarrow> bool \<Rightarrow> message list \<times> bool" where
  "replaceMatching incomingMessage [] replaced = ([], replaced)"
| "replaceMatching incomingMessage (msg # rest) replaced =
     (if isTemp msg \<and> sender_id msg = sender_id incomingMessage \<and>
         content msg = content incomingMessage
      then (case replaceMatching incomingMessage rest True of
              (out, r) \<Rightarrow> (incomingMessage # out, r))
      else if msg_id msg = msg_id incomingMessage
      then (case replaceMatching incomingMessage rest True of
              (out, r) \<Rightarrow> (incomingMessage # out, r))
      else (case replaceMatching incomingMessage rest replaced of
              (out, r) \<Rightarrow> (msg # out, r)))"

text \<open>The updater passed to \<^verbatim>\<open>setMessages\<close> (lines 138-169).\<close>

definition mergeUpdater ::
  "(string \<Rightarrow> int) \<Rightarrow> profile \<Rightarrow> message \<Rightarrow> message list \<Rightarrow> message list" where
  "mergeUpdater tm currentUser incomingMessage prevMessages =
     (if sender_id incomingMessage \<noteq> profile_id currentUser then
        (if messageExists prevMessages incomingMessage then prevMessages
         else arraySort (compareCreatedAt tm) (prevMessages @ [incomingMessage]))
      else
        (case replaceMatching incomingMessage prevMessages False of
           (updatedMessages, replaced) \<Rightarrow>
             if \<not> replaced \<and> \<not> messageExists updatedMessages incomingMessage
             then arraySort (compareCreatedAt tm) (updatedMessages @ [incomingMessage])
             else arraySort (compareCreatedAt tm) updatedMessages))"

definition handleRealtimeMessageCallback ::
  "(string \<Rightarrow> int) \<Rightarrow> profile option \<Rightarrow> chatListItem option \<Rightarrow> message \<Rightarrow>
   message list \<Rightarrow> message list" where
  "handleRealtimeMessageCallback tm currentUser selectedChat incomingMessage prevMessages =
     (case currentUser of
        None \<Rightarrow> prevMessages
      | Some user \<Rightarrow>
          (case selectedChat of
             None \<Rightarrow> prevMessages
           | Some chat \<Rightarrow>
               if \<not> isForActiveChat user chat incomingMessage then prevMessages
               else mergeUpdater tm user incomingMessage prevMessages))"

text \<open>
  The subscription's listener (lines 206-250): the direct-message channel validates the
  event once more before it calls the callback, the group channel calls it directly.
\<close>

definition channelListener ::
  "(string \<Rightarrow> int) \<Rightarrow> profile \<Rightarrow> chatListItem \<Rightarrow> message \<Rightarrow> message list \<Rightarrow> message list" where
  "channelListener tm currentUser selectedChat msg prevMessages =
     (case selectedChat of
        Dm dmPartner _ \<Rightarrow>
          if profile_id dmPartner \<noteq> [] \<and>
             ((sender_id msg = profile_id currentUser \<and>
               recipient_id msg = Some (profile_id dmPartner)) \<or>
              (sender_id msg = profile_id dmPartner \<and>
               recipient_id msg = Some (profile_id currentUser))) \<and>
             group_id msg = None
          then handleRealtimeMessageCallback tm (Some currentUser) (Some selectedChat) msg
                 prevMessages
          else prevMessages
      | GroupChat g _ \<Rightarrow>
          handleRealtimeMessageCallback tm (Some currentUser) (Some selectedChat) msg
            prevMessages)"

section \<open>Loading the history (lines 173-195)\<close>

text \<open>
  The query's answer is \<^verbatim>\<open>{ data, error }\<close>. The result is the store and what was
  written to the console.
\<close>

definition fetchMessages ::
  "message list option \<Rightarrow> string option \<Rightarrow> message list \<Rightarrow> message list \<times> string option" where
  "fetchMessages data error prevMessages =
     (case error of
        Some e \<Rightarrow> (prevMessages, Some (''Error fetching messages: '' @ e))
      | None \<Rightarrow> ((case data of Some rows \<Rightarrow> rows | None \<Rightarrow> []), None))"

definition chatEffect ::
  "chatListItem option \<Rightarrow> profile option \<Rightarrow> message list option \<Rightarrow> string option \<Rightarrow>
   message list \<Rightarrow> message list \<times> string option" where
  "chatEffect selectedChat currentUser data error prevMessages =
     (if selectedChat = None \<or> currentUser = None then ([], None)
      else fetchMessages data error prevMessages)"

section \<open>Sending (lines 269-317)\<close>

record dbPayload =
  p_content :: string
  p_sender_id :: string
  p_recipient_id :: "string option"
  p_group_id :: "int option"

definition tempMessageOf :: "dbPayload \<Rightarrow> string \<Rightarrow> string \<Rightarrow> message" where
  "tempMessageOf p tempId isoNow =
     \<lparr> msg_id = StrId tempId, content = p_content p, created_at = isoNow,
       sender_id = p_sender_id p, recipient_id = p_recipient_id p, group_id = p_group_id p \<rparr>"

text \<open>
  \<^verbatim>\<open>handleSendMessage\<close> up to its \<^verbatim>\<open>await\<close>. \<open>dateNow\<close> is \<^verbatim>\<open>Date.now()\<close>, \<open>rand\<close> is
  \<^verbatim>\<open>Math.random().toString(36).substr(2, 9)\<close> and \<open>isoNow\<close> is
  \<^verbatim>\<open>new Date().toISOString()\<close>. The result is the store, the input box and, when a row
  is submitted for insertion, that row with the temporary message the continuation
  remembers.
\<close>

definition handleSendMessage ::
  "(string \<Rightarrow> int) \<Rightarrow> int \<Rightarrow> string \<Rightarrow> string \<Rightarrow> string \<Rightarrow> chatListItem option \<Rightarrow>
   profile option \<Rightarrow> message list \<Rightarrow> message list \<times> string \<times> (dbPayload \<times> message) option" where
  "handleSendMessage tm dateNow rand isoNow newMessage selectedChat currentUser prev =
     (if trim newMessage = [] then (prev, newMessage, None)
      else case selectedChat of
        None \<Rightarrow> (prev, newMessage, None)
      | Some chat \<Rightarrow>
          (case currentUser of
             None \<Rightarrow> (prev, newMessage, None)
           | Some user \<Rightarrow>
               (let tempId = ''temp-'' @ number_toString dateNow @ ''-'' @ rand;
                    payload =
                      (case chat of
                         Dm dmPartner _ \<Rightarrow>
                           \<lparr> p_content = newMessage, p_sender_id = profile_id user,
                             p_recipient_id = Some (profile_id dmPartner), p_group_id = None \<rparr>
                       | GroupChat g _ \<Rightarrow>
                           \<lparr> p_content = newMessage, p_sender_id = profile_id user,
                             p_recipient_id = None, p_group_id = Some (grp_id g) \<rparr>);
                    tempMessage = tempMessageOf payload tempId isoNow
                in (arraySort (compareCreatedAt tm) (prev @ [tempMessage]), [],
                    Some (payload, tempMessage)))))"

text \<open>
  The continuation after the insert answered \<^verbatim>\<open>{ data, error }\<close> (lines 303-316): the
  store and the text of the alert, if one is shown.
\<close>

definition handleSendMessage_settle ::
  "(string \<Rightarrow> int) \<Rightarrow> message \<Rightarrow> message option \<Rightarrow> string option \<Rightarrow> message list \<Rightarrow>
   message list \<times> string option" where
  "handleSendMessage_settle tm tempMessage data error prev =
     (case error of
        Some e \<Rightarrow> (filter (\<lambda>msg. msg_id msg \<noteq> msg_id tempMessage) prev, Some (''Error: '' @ e))
      | None \<Rightarrow>
          (case data of
             None \<Rightarrow> (prev, None)
           | Some d \<Rightarrow>
               (case find (\<lambda>m. msg_id m = msg_id d) prev of
                  Some existing \<Rightarrow>
                    (arraySort (compareCreatedAt tm)
                       (map (\<lambda>m. if msg_id m = msg_id d then d else m) prev), None)
                | None \<Rightarrow>
                    (arraySort (compareCreatedAt tm)
                       (map (\<lambda>msg. if msg_id msg = msg_id tempMessage then d else msg) prev),
                     None))))"

section \<open>Vocabulary of the properties\<close>

text \<open>
  The two tests of the callback's \<^verbatim>\<open>map\<close> (lines 149-151 and 156) as one predicate: the
  entry is a temporary one with the sender and content of the incoming message, or it has
  the incoming message's id.
\<close>

definition matches :: "message \<Rightarrow> message \<Rightarrow> bool" where
  "matches incomingMessage msg =
     ((isTemp msg \<and> sender_id msg = sender_id incomingMessage \<and>
       content msg = content incomingMessage) \<or>
      msg_id msg = msg_id incomingMessage)"

text \<open>No two entries share a persisted (non-temporary) id.\<close>

definition noDuplicatePersistedIds :: "message list \<Rightarrow> bool" where
  "noDuplicatePersistedIds xs = distinct (map msg_id (filter (\<lambda>m. \<not> isTemp m) xs))"





text \<open>A clock for the examples: the time value of a timestamp is its length.\<close>

definition exampleClock :: "string \<Rightarrow> int" where
  "exampleClock s = int (length s)"

text \<open>
  The data of the examples: the user alice, her direct chat with bob, a group, and the
  message \<^verbatim>\<open>hi\<close> that alice sends to bob, as the temporary entries of two sends and as the
  row the database confirms for the first of them.
\<close>

definition alice :: profile where
  "alice = \<lparr> profile_id = ''u1'', username = ''alice'' \<rparr>"

definition bob :: profile where
  "bob = \<lparr> profile_id = ''u2'', username = ''bob'' \<rparr>"

definition chatWithBob :: chatListItem where
  "chatWithBob = Dm bob ''dm-u2''"

definition chatOfGroup :: chatListItem where
  "chatOfGroup =
     GroupChat \<lparr> grp_id = 7, grp_name = ''team'', grp_created_at = ''t'', created_by = ''u1'' \<rparr>
       ''group-7''"

definition tempHi1 :: message where
  "tempHi1 = \<lparr> msg_id = StrId ''temp-1-a'', content = ''hi'', created_at = ''t'',
               sender_id = ''u1'', recipient_id = Some ''u2'', group_id = None \<rparr>"

definition tempHi2 :: message where
  "tempHi2 = \<lparr> msg_id = StrId ''temp-2-b'', content = ''hi'', created_at = ''ttt'',
               sender_id = ''u1'', recipient_id = Some ''u2'', group_id = None \<rparr>"

definition confirmedHi1 :: message where
  "confirmedHi1 = \<lparr> msg_id = NumId 1, content = ''hi'', created_at = ''tt'',
                    sender_id = ''u1'', recipient_id = Some ''u2'', group_id = None \<rparr>"

definition fromBob :: message where
  "fromBob = \<lparr> msg_id = NumId 5, content = ''hello'', created_at = ''t'',
               sender_id = ''u2'', recipient_id = Some ''u1'', group_id = None \<rparr>"

definition groupEvent :: message where
  "groupEvent = \<lparr> msg_id = NumId 9, content = ''all'', created_at = ''tt'',
                  sender_id = ''u2'', recipient_id = None, group_id = Some 7 \<rparr>"

section \<open>Basic facts\<close>

lemma insertBy_insort:
  "insertBy (compareCreatedAt tm) x xs = insort_key (\<lambda>m. tm (created_at m)) x xs"
  by (induction xs) (auto simp: compareCreatedAt_def)

lemma arraySort_sort_key:
  "arraySort (compareCreatedAt tm) xs = sort_key (\<lambda>m. tm (created_at m)) xs"
proof -
  have "insertBy (compareCreatedAt tm) = insort_key (\<lambda>m. tm (created_at m))"
    by (intro ext) (rule insertBy_insort)
  then show ?thesis
    by (simp add: arraySort_def sort_key_def)
qed

lemma digit_char_not_t: "digit_char d \<noteq> CHR ''t''"
proof -
  have "d mod 10 < length ''0123456789''" by simp
  then have "digit_char d \<in> set ''0123456789''"
    unfolding digit_char_def by (rule nth_mem)
  then show ?thesis by auto
qed

lemma hd_digits: "\<exists>c cs. digits n = c # cs \<and> c \<noteq> CHR ''t''"
proof (induction n rule: digits.induct)
  case (1 n)
  show ?case
  proof (cases "n < 10")
    case True
    then have "digits n = [digit_char n]" by (subst digits.simps) simp
    then show ?thesis by (simp add: digit_char_not_t)
  next
    case False
    then have eq: "digits n = digits (n div 10) @ [digit_char (n mod 10)]"
      by (subst digits.simps) simp
    from 1 False obtain c cs where "digits (n div 10) = c # cs" "c \<noteq> CHR ''t''" by blast
    with eq show ?thesis by simp
  qed
qed

lemma number_toString_not_temp: "\<not> startsWith (number_toString n) ''temp-''"
proof -
  obtain c cs where a: "digits (nat n) = c # cs" "c \<noteq> CHR ''t''" using hd_digits by blast
  show ?thesis using a by (auto simp: startsWith_def number_toString_def)
qed

text \<open>A numeric id is never a temporary one.\<close>

lemma isTemp_NumId: "msg_id m = NumId n \<Longrightarrow> \<not> isTemp m"
  by (simp add: isTemp_def number_toString_not_temp)

subsection \<open>The callback's updater in closed form\<close>

lemma replaceMatching_eq:
  "replaceMatching inc xs r =
     (map (\<lambda>msg. if matches inc msg then inc else msg) xs, r \<or> list_ex (matches inc) xs)"
  by (induction xs arbitrary: r) (auto simp: matches_def)

lemma messageExists_matches: "messageExists xs M = list_ex (matches M) xs"
  by (auto simp: messageExists_def matches_def list_ex_iff)

lemma matches_self: "matches M M"
  by (simp add: matches_def)

lemma list_ex_matches_map:
  "list_ex (matches M) (map (\<lambda>msg. if matches M msg then M else msg) xs) = list_ex (matches M) xs"
  by (induction xs) (auto simp: matches_self)

lemma mergeUpdater_alt:
  "mergeUpdater tm cu M s =
     (if sender_id M \<noteq> profile_id cu
      then (if list_ex (matches M) s then s else sort_key (\<lambda>m. tm (created_at m)) (s @ [M]))
      else if list_ex (matches M) s
        then sort_key (\<lambda>m. tm (created_at m)) (map (\<lambda>msg. if matches M msg then M else msg) s)
        else sort_key (\<lambda>m. tm (created_at m)) (s @ [M]))"
proof -
  have nomatch: "\<not> list_ex (matches M) s \<Longrightarrow> map (\<lambda>msg. if matches M msg then M else msg) s = s"
    by (induction s) auto
  show ?thesis
    unfolding mergeUpdater_def replaceMatching_eq messageExists_matches arraySort_sort_key
    using nomatch by (simp add: list_ex_matches_map)
qed

lemma map_replace_fixed:
  assumes "\<forall>m\<in>set xs. matches M m \<longrightarrow> m = M"
  shows "map (\<lambda>msg. if matches M msg then M else msg) xs = xs"
  using assms by (induction xs) auto

lemma mergeUpdater_idem: "mergeUpdater tm cu M (mergeUpdater tm cu M s) = mergeUpdater tm cu M s"
proof -
  let ?k = "\<lambda>m. tm (created_at m)"
  let ?f = "\<lambda>msg. if matches M msg then M else msg"
  let ?A = "sort_key ?k (s @ [M])"
  let ?B = "sort_key ?k (map ?f s)"
  have exA: "list_ex (matches M) ?A"
    by (auto simp: list_ex_iff matches_self)
  have fixA: "\<not> list_ex (matches M) s \<Longrightarrow> map ?f ?A = ?A"
    by (rule map_replace_fixed) (auto simp: list_ex_iff)
  have "list_ex (matches M) ?B = list_ex (matches M) (map ?f s)"
    by (simp add: list_ex_iff)
  then have exB: "list_ex (matches M) s \<Longrightarrow> list_ex (matches M) ?B"
    by (simp only: list_ex_matches_map)
  have fixB: "map ?f ?B = ?B"
    by (rule map_replace_fixed) auto
  have idA: "sort_key ?k ?A = ?A" by (rule sort_key_id_if_sorted) simp
  have idB: "sort_key ?k ?B = ?B" by (rule sort_key_id_if_sorted) simp
  show ?thesis
  proof (cases "list_ex (matches M) s")
    case True
    then show ?thesis
      using exB fixB idB by (simp add: mergeUpdater_alt)
  next
    case False
    then show ?thesis
      using exA fixA idA by (simp add: mergeUpdater_alt)
  qed
qed

subsection \<open>Sorting, searching and fresh ids\<close>

lemma find_list_ex: "(find P xs = None) = (\<not> list_ex P xs)"
  by (auto simp: find_None_iff list_ex_iff)

lemma fresh_id: "(i \<notin> msg_id ` set zs) = (\<forall>m\<in>set zs. msg_id m \<noteq> i)"
  by force

lemma sortedByCreatedAt_arraySort: "sortedByCreatedAt tm (arraySort (compareCreatedAt tm) xs)"
  by (simp add: sortedByCreatedAt_def arraySort_sort_key)

lemma arraySort_id: "sortedByCreatedAt tm xs \<Longrightarrow> arraySort (compareCreatedAt tm) xs = xs"
  by (simp add: sortedByCreatedAt_def arraySort_sort_key sort_key_id_if_sorted)

lemma filter_arraySort:
  "filter P (arraySort (compareCreatedAt tm) xs) = arraySort (compareCreatedAt tm) (filter P xs)"
  by (simp add: arraySort_sort_key filter_sort)


lemma filter_singleton_iff:
  "filter P xs = [t] \<Longrightarrow> (\<forall>m\<in>set xs. P m \<longleftrightarrow> m = t) \<and> t \<in> set xs"
proof -
  assume a: "filter P xs = [t]"
  have "set (filter P xs) = {t}" using a by simp
  then show ?thesis by auto
qed

lemma map_cong_set: "(\<And>m. m \<in> set xs \<Longrightarrow> f m = g m) \<Longrightarrow> map f xs = map g xs"
  by simp

text \<open>The trimmed text is empty exactly when every character is white space.\<close>

lemma trim_empty_iff: "(trim s = []) = list_all isWhiteSpace s"
proof (cases "dropWhile isWhiteSpace s")
  case Nil
  then have "list_all isWhiteSpace s"
    by (simp add: dropWhile_eq_Nil_conv list_all_iff)
  moreover have "trim s = []"
    unfolding trim_def Nil by simp
  ultimately show ?thesis by simp
next
  case (Cons c cs)
  then have notws: "\<not> isWhiteSpace c"
    using hd_dropWhile [of isWhiteSpace s] by simp
  have "c \<in> set (dropWhile isWhiteSpace s)"
    using Cons by simp
  then have "c \<in> set s"
    using set_dropWhileD by fast
  with notws have "\<not> list_all isWhiteSpace s"
    by (auto simp: list_all_iff)
  moreover have "dropWhile isWhiteSpace (rev (c # cs)) \<noteq> []"
    using notws by (auto simp: dropWhile_eq_Nil_conv)
  then have "trim s \<noteq> []"
    unfolding trim_def Cons by simp
  ultimately show ?thesis by simp
qed

subsection \<open>What a send that is submitted leaves behind\<close>

lemma handleSendMessage_Some:
  assumes "handleSendMessage tm dateNow rand isoNow newMessage selectedChat currentUser s0 =
             (s1, box, Some (payload, tempMessage))"
  shows "s1 = arraySort (compareCreatedAt tm) (s0 @ [tempMessage]) \<and>
         msg_id tempMessage = StrId (''temp-'' @ number_toString dateNow @ ''-'' @ rand) \<and>
         content tempMessage = newMessage \<and>
         (\<exists>u. currentUser = Some u \<and> sender_id tempMessage = profile_id u)"
  using assms
  by (auto simp: handleSendMessage_def Let_def tempMessageOf_def
           split: if_splits option.splits chatListItem.splits)

subsection \<open>Every operation keeps a sorted store sorted\<close>










text \<open>A failed history query leaves the store as it was and writes the error to the console.\<close>

lemma fetch_failure_leaves_store:
  "chatEffect (Some chat) (Some user) data (Some e) prev =
     (prev, Some (''Error fetching messages: '' @ e))"
  by (simp add: chatEffect_def fetchMessages_def)

section \<open>Properties of the message store\<close>

text \<open>
  C1. Idempotent merge: for every store, every current user and selected chat and every
  incoming message \<open>M\<close>, running the realtime callback's store update twice with \<open>M\<close> gives
  the same store as running it once.
\<close>

theorem merge_idempotent:
  "handleRealtimeMessageCallback tm currentUser selectedChat M
     (handleRealtimeMessageCallback tm currentUser selectedChat M s) =
   handleRealtimeMessageCallback tm currentUser selectedChat M s"
  by (simp add: handleRealtimeMessageCallback_def mergeUpdater_idem split: option.splits)

text \<open>
  C2. No duplicate persisted ids: in every reachable state no two entries of the store
  share a persisted id. The page does not keep this. Alice sends \<^verbatim>\<open>hi\<close> to bob and the
  insert confirms it as row 1; she sends \<^verbatim>\<open>hi\<close> again; the push event of row 1 arrives
  only now. The callback's \<^verbatim>\<open>map\<close> replaces the second send's temporary entry as well as
  the confirmed row, and the store holds row 1 twice.
\<close>

theorem late_push_duplicates_persisted_id:
  "fst (handleSendMessage exampleClock 1 ''a'' ''t'' ''hi'' (Some chatWithBob) (Some alice) []) =
     [tempHi1] \<and>
   fst (handleSendMessage_settle exampleClock tempHi1 (Some confirmedHi1) None [tempHi1]) =
     [confirmedHi1] \<and>
   fst (handleSendMessage exampleClock 2 ''b'' ''ttt'' ''hi'' (Some chatWithBob) (Some alice)
          [confirmedHi1]) = [confirmedHi1, tempHi2] \<and>
   channelListener exampleClock alice chatWithBob confirmedHi1 [confirmedHi1, tempHi2] =
     [confirmedHi1, confirmedHi1] \<and>
   \<not> noDuplicatePersistedIds [confirmedHi1, confirmedHi1]"
  by code_simp

text \<open>
  C3. Scoping: with current user \<open>u\<close> and active conversation \<open>C\<close>, an event \<open>E\<close> that is
  neither a message of the direct pair (in one of the two directions, with no group id)
  when \<open>C\<close> is direct, nor a message of the group (with no recipient) when \<open>C\<close> is a group,
  leaves the store unchanged, in the callback and in the subscription's listener.
\<close>

theorem scoping:
  assumes "\<not> (case C of
              Dm p _ \<Rightarrow>
                ((sender_id E = profile_id u \<and> recipient_id E = Some (profile_id p)) \<or>
                 (sender_id E = profile_id p \<and> recipient_id E = Some (profile_id u))) \<and>
                group_id E = None
            | GroupChat g _ \<Rightarrow> group_id E = Some (grp_id g) \<and> recipient_id E = None)"
  shows "handleRealtimeMessageCallback tm (Some u) (Some C) E prev = prev \<and>
         channelListener tm u C E prev = prev"
  using assms
  by (cases C)
     (auto simp: handleRealtimeMessageCallback_def channelListener_def isForActiveChat_def)

theorem scoping_witness:
  "\<not> (case chatWithBob of
        Dm p _ \<Rightarrow>
          ((sender_id groupEvent = profile_id alice \<and>
            recipient_id groupEvent = Some (profile_id p)) \<or>
           (sender_id groupEvent = profile_id p \<and>
            recipient_id groupEvent = Some (profile_id alice))) \<and>
          group_id groupEvent = None
      | GroupChat g _ \<Rightarrow>
          group_id groupEvent = Some (grp_id g) \<and> recipient_id groupEvent = None) \<and>
   handleRealtimeMessageCallback exampleClock (Some alice) (Some chatWithBob) groupEvent
     [fromBob] = [fromBob] \<and>
   channelListener exampleClock alice chatWithBob groupEvent [fromBob] = [fromBob]"
proof -
  have h: "\<not> (case chatWithBob of
        Dm p _ \<Rightarrow>
          ((sender_id groupEvent = profile_id alice \<and>
            recipient_id groupEvent = Some (profile_id p)) \<or>
           (sender_id groupEvent = profile_id p \<and>
            recipient_id groupEvent = Some (profile_id alice))) \<and>
          group_id groupEvent = None
      | GroupChat g _ \<Rightarrow>
          group_id groupEvent = Some (grp_id g) \<and> recipient_id groupEvent = None)"
    by (simp add: chatWithBob_def groupEvent_def)
  from scoping [OF h, of exampleClock "[fromBob]"] h show ?thesis by simp
qed




text \<open>
  C5. The race between the insert's answer and the push event. A send in conversation \<open>C\<close>
  by user \<open>u\<close> created the temporary entry \<open>t\<close>; \<open>D\<close> is the row the database confirms for
  its payload. At callback time the store \<open>s\<close> holds \<open>t\<close> once, \<open>t\<close> is its only temporary
  entry with this sender and content, and the id of \<open>D\<close> is new to it. Then the success
  continuation and the callback commute on \<open>s\<close>: each of them alone turns \<open>s\<close> into the same
  store \<open>R\<close>, \<open>s\<close> with \<open>t\<close> replaced by \<open>D\<close> and sorted, and each of them leaves \<open>R\<close> as it
  is.
\<close>

theorem success_and_push_commute:
  assumes sent: "handleSendMessage tm dateNow rand isoNow newMessage (Some C) (Some u) s0 =
                   (s1, box, Some (payload, t))"
      and confirmed: "content D = p_content payload \<and> sender_id D = p_sender_id payload \<and>
                      recipient_id D = p_recipient_id payload \<and> group_id D = p_group_id payload"
      and entry: "filter (\<lambda>m. msg_id m = msg_id t) s = [t]"
      and only: "filter (\<lambda>m. isTemp m \<and> sender_id m = sender_id D \<and> content m = content D) s = [t]"
      and fresh: "msg_id D \<notin> set (map msg_id s)"
  shows "(let R = arraySort (compareCreatedAt tm) (map (\<lambda>m. if m = t then D else m) s) in
          handleRealtimeMessageCallback tm (Some u) (Some C) D
            (fst (handleSendMessage_settle tm t (Some D) None s)) =
          fst (handleSendMessage_settle tm t (Some D) None
            (handleRealtimeMessageCallback tm (Some u) (Some C) D s)) \<and>
          fst (handleSendMessage_settle tm t (Some D) None s) = R \<and>
          handleRealtimeMessageCallback tm (Some u) (Some C) D s = R \<and>
          handleRealtimeMessageCallback tm (Some u) (Some C) D R = R \<and>
          fst (handleSendMessage_settle tm t (Some D) None R) = R)"
proof -
  let ?srt = "arraySort (compareCreatedAt tm)"
  let ?R = "?srt (map (\<lambda>m. if m = t then D else m) s)"
  from sent confirmed have own: "sender_id D = profile_id u"
    by (auto simp: handleSendMessage_def Let_def tempMessageOf_def
             split: if_splits option.splits chatListItem.splits)
  from sent confirmed have active: "isForActiveChat u C D"
    by (auto simp: handleSendMessage_def Let_def tempMessageOf_def isForActiveChat_def
             split: if_splits option.splits chatListItem.splits)
  from entry have byid: "\<forall>m\<in>set s. (msg_id m = msg_id t) = (m = t)" and t_in: "t \<in> set s"
    using filter_singleton_iff [OF entry] by auto
  from only have bytemp:
    "\<forall>m\<in>set s. (isTemp m \<and> sender_id m = sender_id D \<and> content m = content D) = (m = t)"
    using filter_singleton_iff [OF only] by auto
  from fresh have fr: "\<forall>m\<in>set s. msg_id m \<noteq> msg_id D"
    by (simp add: fresh_id)
  have m_iff: "\<forall>m\<in>set s. matches D m = (m = t)"
    using bytemp fr by (auto simp: matches_def)
  have ex: "list_ex (matches D) s"
    using m_iff t_in by (auto simp: list_ex_iff)
  have mapf: "map (\<lambda>msg. if matches D msg then D else msg) s =
              map (\<lambda>m. if m = t then D else m) s"
    using m_iff by (intro map_cong_set) auto
  have maph: "map (\<lambda>msg. if msg_id msg = msg_id t then D else msg) s =
              map (\<lambda>m. if m = t then D else m) s"
    using byid by (intro map_cong_set) auto
  have none: "find (\<lambda>m. msg_id m = msg_id D) s = None"
    using fr by (simp add: find_None_iff)
  have A: "fst (handleSendMessage_settle tm t (Some D) None s) = ?R"
    by (simp add: handleSendMessage_settle_def none maph)
  have merge_s: "mergeUpdater tm u D s = ?R"
    using own ex by (simp add: mergeUpdater_alt mapf arraySort_sort_key)
  have B: "handleRealtimeMessageCallback tm (Some u) (Some C) D s = ?R"
    using active merge_s by (simp add: handleRealtimeMessageCallback_def)
  have setR: "set ?R = set (map (\<lambda>m. if m = t then D else m) s)"
    by (simp add: arraySort_sort_key)
  have D_in: "D \<in> set ?R"
    unfolding setR using t_in by (auto simp: image_iff)
  have elems: "\<forall>m\<in>set ?R. m = D \<or> (m \<in> set s \<and> m \<noteq> t)"
    unfolding setR by auto
  have fixR: "\<forall>m\<in>set ?R. matches D m \<longrightarrow> m = D"
    using elems m_iff by blast
  have sortR: "?srt ?R = ?R"
    by (rule arraySort_id) (rule sortedByCreatedAt_arraySort)
  have exR: "list_ex (matches D) ?R"
    using D_in matches_self by (force simp: list_ex_iff)
  have merge_R: "mergeUpdater tm u D ?R = ?R"
    using own exR map_replace_fixed [OF fixR] sortR
    by (simp add: mergeUpdater_alt arraySort_sort_key)
  have Cc: "handleRealtimeMessageCallback tm (Some u) (Some C) D ?R = ?R"
    using active merge_R by (simp add: handleRealtimeMessageCallback_def)
  have idR: "\<forall>m\<in>set ?R. msg_id m = msg_id D \<longrightarrow> m = D"
    using elems fr by blast
  have mapg: "map (\<lambda>m. if msg_id m = msg_id D then D else m) ?R = ?R"
    using idR by (intro map_idI) auto
  obtain e where some: "find (\<lambda>m. msg_id m = msg_id D) ?R = Some e"
    using D_in by (cases "find (\<lambda>m. msg_id m = msg_id D) ?R") (auto simp: find_None_iff)
  have Dd: "fst (handleSendMessage_settle tm t (Some D) None ?R) = ?R"
    by (simp add: handleSendMessage_settle_def some mapg sortR)
  from A B Cc Dd show ?thesis by (simp add: Let_def)
qed

theorem success_and_push_commute_witness:
  "handleSendMessage exampleClock 2 ''b'' ''ttt'' ''hi'' (Some chatWithBob) (Some alice) [fromBob] =
     ([fromBob, tempHi2], [], Some (\<lparr> p_content = ''hi'', p_sender_id = ''u1'',
         p_recipient_id = Some ''u2'', p_group_id = None \<rparr>, tempHi2)) \<and>
   fst (handleSendMessage_settle exampleClock tempHi2 (Some confirmedHi1) None
          [fromBob, tempHi2]) = [fromBob, confirmedHi1] \<and>
   handleRealtimeMessageCallback exampleClock (Some alice) (Some chatWithBob) confirmedHi1
     [fromBob, tempHi2] = [fromBob, confirmedHi1] \<and>
   handleRealtimeMessageCallback exampleClock (Some alice) (Some chatWithBob) confirmedHi1
     [fromBob, confirmedHi1] = [fromBob, confirmedHi1] \<and>
   fst (handleSendMessage_settle exampleClock tempHi2 (Some confirmedHi1) None
          [fromBob, confirmedHi1]) = [fromBob, confirmedHi1]"
proof -
  let ?p = "\<lparr> p_content = ''hi'', p_sender_id = ''u1'',
         p_recipient_id = Some ''u2'', p_group_id = None \<rparr>"
  have h1: "handleSendMessage exampleClock 2 ''b'' ''ttt'' ''hi'' (Some chatWithBob) (Some alice)
              [fromBob] = ([fromBob, tempHi2], [], Some (?p, tempHi2))"
    by code_simp
  have h2: "content confirmedHi1 = p_content ?p \<and> sender_id confirmedHi1 = p_sender_id ?p \<and>
            recipient_id confirmedHi1 = p_recipient_id ?p \<and> group_id confirmedHi1 = p_group_id ?p"
    by (simp add: confirmedHi1_def)
  have h3: "filter (\<lambda>m. msg_id m = msg_id tempHi2) [fromBob, tempHi2] = [tempHi2]"
    by (simp add: fromBob_def tempHi2_def)
  have h4: "filter (\<lambda>m. isTemp m \<and> sender_id m = sender_id confirmedHi1 \<and>
                        content m = content confirmedHi1) [fromBob, tempHi2] = [tempHi2]"
    by (simp add: fromBob_def tempHi2_def confirmedHi1_def isTemp_def startsWith_def)
  have h5: "msg_id confirmedHi1 \<notin> set (map msg_id [fromBob, tempHi2])"
    by (simp add: fromBob_def tempHi2_def confirmedHi1_def)
  have R: "arraySort (compareCreatedAt exampleClock)
             (map (\<lambda>m. if m = tempHi2 then confirmedHi1 else m) [fromBob, tempHi2]) =
           [fromBob, confirmedHi1]"
    by code_simp
  from success_and_push_commute [OF h1 h2 h3 h4 h5] h1 show ?thesis
    unfolding R Let_def by simp
qed

text \<open>
  C6. The confirmation path: an incoming message of the current user whose id is new to
  the store replaces the first temporary entry with its sender and content, and only that
  one. The callback's \<^verbatim>\<open>map\<close> replaces every such entry: with the temporary entries of two
  sends of \<^verbatim>\<open>hi\<close> in the store, the confirmation of the first replaces both.
\<close>

theorem confirmation_replaces_every_matching_temp:
  "handleRealtimeMessageCallback exampleClock (Some alice) (Some chatWithBob) confirmedHi1
     [tempHi1, tempHi2] = [confirmedHi1, confirmedHi1]"
  by code_simp

text \<open>
  C7. Rollback of a failed send. Let a send have submitted a row and created the temporary
  entry \<open>tempMessage\<close>. When the insert answers with an error and the store holds that entry
  among entries of other ids, the continuation removes exactly that entry, keeps all others
  in their order, whatever their content, adds nothing, and shows the error in an alert.
  When the failure follows the send directly, on a sorted store to which the temporary id
  was new, the store is again what it was before the send, one entry shorter than in
  between.
\<close>

theorem send_failure_rollback:
  assumes sent: "handleSendMessage tm dateNow rand isoNow newMessage selectedChat currentUser s0 =
             (s1, box, Some (payload, tempMessage))"
      and others: "msg_id tempMessage \<notin> set (map msg_id (xs @ ys))"
  shows "handleSendMessage_settle tm tempMessage data (Some e) (xs @ tempMessage # ys) =
           (xs @ ys, Some (''Error: '' @ e)) \<and>
         (msg_id tempMessage \<notin> set (map msg_id s0) \<and> sortedByCreatedAt tm s0 \<longrightarrow>
            handleSendMessage_settle tm tempMessage data (Some e) s1 =
              (s0, Some (''Error: '' @ e)) \<and> length s1 = Suc (length s0))"
proof -
  have keep: "\<And>zs. msg_id tempMessage \<notin> set (map msg_id zs) \<Longrightarrow>
                filter (\<lambda>msg. msg_id msg \<noteq> msg_id tempMessage) zs = zs"
    by (simp add: fresh_id filter_id_conv)
  have one: "handleSendMessage_settle tm tempMessage data (Some e) (xs @ tempMessage # ys) =
           (xs @ ys, Some (''Error: '' @ e))"
    using keep [of xs] keep [of ys] others by (simp add: handleSendMessage_settle_def)
  have s1: "s1 = arraySort (compareCreatedAt tm) (s0 @ [tempMessage])"
    using handleSendMessage_Some [OF sent] by simp
  have two: "handleSendMessage_settle tm tempMessage data (Some e) s1 =
               (s0, Some (''Error: '' @ e))"
    if fresh: "msg_id tempMessage \<notin> set (map msg_id s0)" and srt: "sortedByCreatedAt tm s0"
  proof -
    have "filter (\<lambda>msg. msg_id msg \<noteq> msg_id tempMessage) s1 =
          arraySort (compareCreatedAt tm)
            (filter (\<lambda>msg. msg_id msg \<noteq> msg_id tempMessage) (s0 @ [tempMessage]))"
      unfolding s1 by (rule filter_arraySort)
    also have "\<dots> = arraySort (compareCreatedAt tm) s0"
      using keep [OF fresh] by simp
    also have "\<dots> = s0" using srt by (rule arraySort_id)
    finally show ?thesis by (simp add: handleSendMessage_settle_def)
  qed
  have len: "length s1 = Suc (length s0)"
    unfolding s1 by (simp add: arraySort_sort_key)
  from one two len show ?thesis by blast
qed

theorem send_failure_rollback_witness:
  "handleSendMessage exampleClock 2 ''b'' ''ttt'' ''hi'' (Some chatWithBob) (Some alice)
     [fromBob, confirmedHi1] =
     ([fromBob, confirmedHi1, tempHi2], [], Some (\<lparr> p_content = ''hi'', p_sender_id = ''u1'',
         p_recipient_id = Some ''u2'', p_group_id = None \<rparr>, tempHi2)) \<and>
   msg_id tempHi2 \<notin> set (map msg_id ([fromBob, confirmedHi1] @ [])) \<and>
   sortedByCreatedAt exampleClock [fromBob, confirmedHi1] \<and>
   handleSendMessage_settle exampleClock tempHi2 None (Some ''offline'')
     [fromBob, confirmedHi1, tempHi2] = ([fromBob, confirmedHi1], Some ''Error: offline'')"
proof -
  have h1: "handleSendMessage exampleClock 2 ''b'' ''ttt'' ''hi'' (Some chatWithBob) (Some alice)
     [fromBob, confirmedHi1] =
     ([fromBob, confirmedHi1, tempHi2], [], Some (\<lparr> p_content = ''hi'', p_sender_id = ''u1'',
         p_recipient_id = Some ''u2'', p_group_id = None \<rparr>, tempHi2))"
    by code_simp
  have h2: "msg_id tempHi2 \<notin> set (map msg_id ([fromBob, confirmedHi1] @ []))"
    by (simp add: fromBob_def confirmedHi1_def tempHi2_def)
  have h3: "sortedByCreatedAt exampleClock [fromBob, confirmedHi1]"
    by (simp add: sortedByCreatedAt_def exampleClock_def fromBob_def confirmedHi1_def)
  from send_failure_rollback [OF h1 h2, of None "''offline''"] h1 h2 h3 show ?thesis
    by simp
qed

text \<open>
  C8. A failed history load leaves the store empty. The page leaves the store as it was:
  the selection effect clears it only when no conversation is selected, and the failure
  branch of the load does not touch it. With the store holding bob's message from the
  direct chat, selecting the group and failing to load its history still shows bob's
  message.
\<close>

theorem fetch_failure_keeps_previous_conversation:
  "chatEffect (Some chatOfGroup) (Some alice) None (Some ''timeout'') [fromBob] =
     ([fromBob], Some ''Error fetching messages: timeout'')"
  by (simp add: chatEffect_def fetchMessages_def)

text \<open>
  C9. A send whose text trims to the empty string, or with no conversation selected, or
  with no current user, changes neither the store nor the input box and submits no row.
\<close>

theorem empty_send_is_noop:
  "trim newMessage = [] \<or> selectedChat = None \<or> currentUser = None \<Longrightarrow>
   handleSendMessage tm dateNow rand isoNow newMessage selectedChat currentUser prev =
     (prev, newMessage, None)"
  by (auto simp: handleSendMessage_def split: option.splits)

theorem empty_send_is_noop_witness:
  "(trim ''  '' = [] \<or> Some chatWithBob = None \<or> Some alice = None) \<and>
   handleSendMessage exampleClock 1 ''a'' ''t'' ''  '' (Some chatWithBob) (Some alice) [fromBob] =
     ([fromBob], ''  '', None)"
proof -
  have h: "trim ''  '' = [] \<or> Some chatWithBob = None \<or> Some alice = None"
    by (simp add: trim_def isWhiteSpace_def)
  from empty_send_is_noop [OF h] h show ?thesis by simp
qed

text \<open>
  C10. A success that finds neither the temporary entry nor the confirmed id: the
  continuation only re-sorts the store. The entries are the same as before and the
  confirmed row is not among them.
\<close>

theorem late_success_adds_nothing:
  assumes "msg_id tempMessage \<notin> set (map msg_id prev)"
      and "msg_id d \<notin> set (map msg_id prev)"
  shows "fst (handleSendMessage_settle tm tempMessage (Some d) None prev) =
           arraySort (compareCreatedAt tm) prev \<and>
         mset (fst (handleSendMessage_settle tm tempMessage (Some d) None prev)) = mset prev \<and>
         d \<notin> set (fst (handleSendMessage_settle tm tempMessage (Some d) None prev))"
proof -
  have none: "find (\<lambda>m. msg_id m = msg_id d) prev = None"
    using assms(2) by (simp add: fresh_id find_None_iff)
  have same: "map (\<lambda>msg. if msg_id msg = msg_id tempMessage then d else msg) prev = prev"
    using assms(1) by (induction prev) auto
  have eq: "fst (handleSendMessage_settle tm tempMessage (Some d) None prev) =
           arraySort (compareCreatedAt tm) prev"
    by (simp add: handleSendMessage_settle_def none same)
  have "d \<notin> set prev" using assms(2) by (auto simp: fresh_id)
  then show ?thesis
    unfolding eq by (simp add: arraySort_sort_key)
qed

theorem late_success_adds_nothing_witness:
  "msg_id tempHi1 \<notin> set (map msg_id [fromBob]) \<and>
   msg_id confirmedHi1 \<notin> set (map msg_id [fromBob]) \<and>
   fst (handleSendMessage_settle exampleClock tempHi1 (Some confirmedHi1) None [fromBob]) =
     [fromBob]"
proof -
  have h1: "msg_id tempHi1 \<notin> set (map msg_id [fromBob])"
    by (simp add: fromBob_def tempHi1_def)
  have h2: "msg_id confirmedHi1 \<notin> set (map msg_id [fromBob])"
    by (simp add: fromBob_def confirmedHi1_def)
  from late_success_adds_nothing [OF h1 h2, of exampleClock] h1 h2 show ?thesis
    by (simp add: arraySort_def)
qed

end
